theory Spec2Isabelle
  imports Main "HOL-Library.Word"
begin

section \<open>Python values, exceptions and the shape of a call\<close>

text \<open>
  The module \<^verbatim>\<open>utils.py\<close> is glue over the file system, \<^verbatim>\<open>torch\<close>, \<^verbatim>\<open>logging\<close>,
  \<^verbatim>\<open>json\<close>, \<^verbatim>\<open>csv\<close>, \<^verbatim>\<open>pandas\<close>/\<^verbatim>\<open>matplotlib\<close> and \<^verbatim>\<open>scipy.io\<close>. Every function is
  embedded as a state transformer that returns either the exception it raises or its
  value, together with the state it leaves behind, so that what a failing call has
  already changed stays visible.

  A float is carried as its IEEE-754 bit pattern; no function of the module computes
  with one. Console output (\<^verbatim>\<open>print\<close>) is not part of the state.
\<close>

type_synonym float = "64 word"

datatype py_error =
    TypeError
  | KeyError string
  | IndexError
  | ValueError
  | FileNotFoundError
  | FileExistsError
  | NotADirectoryError
  | IsADirectoryError

text \<open>
  The values a checkpoint dictionary holds: an iteration counter, a loss history (a list
  of floats) and the \<^verbatim>\<open>state_dict\<close> of a network or of an optimizer, which is an ordered
  dictionary of named tensors, each kept as its flattened data.
\<close>

datatype pyval =
    IntV int
  | FloatsV "float list"
  | StateDictV "(string \<times> float list) list"

type_synonym ('s, 'a) prog = "'s \<Rightarrow> (py_error + 'a) \<times> 's"

definition ret :: "'a \<Rightarrow> ('s, 'a) prog" where
  "ret x = (\<lambda>s. (Inr x, s))"

definition raise :: "py_error \<Rightarrow> ('s, 'a) prog" where
  "raise e = (\<lambda>s. (Inl e, s))"

definition bind :: "('s, 'a) prog \<Rightarrow> ('a \<Rightarrow> ('s, 'b) prog) \<Rightarrow> ('s, 'b) prog" where
  "bind m f = (\<lambda>s. case m s of (Inl e, s') \<Rightarrow> (Inl e, s') | (Inr x, s') \<Rightarrow> f x s')"

definition lift :: "py_error + 'a \<Rightarrow> ('s, 'a) prog" where
  "lift r = (\<lambda>s. (r, s))"

definition modify :: "('s \<Rightarrow> 's) \<Rightarrow> ('s, unit) prog" where
  "modify f = (\<lambda>s. (Inr (), f s))"

definition getitem :: "(string \<rightharpoonup> 'v) \<Rightarrow> string \<Rightarrow> py_error + 'v" where
  \<comment> \<open>\<^verbatim>\<open>d[k]\<close> on a dictionary\<close>
  "getitem d k = (case d k of None \<Rightarrow> Inl (KeyError k) | Some v \<Rightarrow> Inr v)"

section \<open>The file system\<close>

text \<open>
  A path is the list of its components, as the operating system resolves it; a file
  system maps the paths that exist to a directory or to a file with its content. The
  content is what the reading library makes of the file (the unpickled dictionary, the
  parsed JSON object, the rows of a CSV file), so a file that does not parse is outside
  the model, and so are permissions, symbolic links and a full disk.
\<close>

type_synonym path = "string list"

datatype 'c node = Dir | File 'c

type_synonym 'c filesystem = "path \<rightharpoonup> 'c node"

definition path_join :: "path \<Rightarrow> string \<Rightarrow> path" where
  \<comment> \<open>\<^verbatim>\<open>os.path.join(d, name)\<close> for a single relative component\<close>
  "path_join d name = d @ [name]"

definition dirname :: "path \<Rightarrow> path" where
  "dirname p = butlast p"

definition path_exists :: "'c filesystem \<Rightarrow> path \<Rightarrow> bool" where
  \<comment> \<open>\<^verbatim>\<open>os.path.exists\<close>: true of a file and of a directory\<close>
  "path_exists fs p = (fs p \<noteq> None)"

definition parent_error :: "'c filesystem \<Rightarrow> path \<Rightarrow> py_error option" where
  \<comment> \<open>why an entry cannot be created at \<open>p\<close>: its parent is missing or is a file\<close>
  "parent_error fs p =
     (case fs (dirname p) of
        None \<Rightarrow> Some FileNotFoundError
      | Some (File _) \<Rightarrow> Some NotADirectoryError
      | Some Dir \<Rightarrow> None)"

definition mkdir :: "path \<Rightarrow> ('c filesystem, unit) prog" where
  \<comment> \<open>\<^verbatim>\<open>os.mkdir\<close>: one level, never the parents\<close>
  "mkdir p = (\<lambda>fs.
     if fs p \<noteq> None then (Inl FileExistsError, fs)
     else case parent_error fs p of
            Some e \<Rightarrow> (Inl e, fs)
          | None \<Rightarrow> (Inr (), fs(p \<mapsto> Dir)))"

definition open_write :: "path \<Rightarrow> 'c \<Rightarrow> ('c filesystem, unit) prog" where
  \<comment> \<open>open for writing, write the content, close: any earlier content is replaced\<close>
  "open_write p c = (\<lambda>fs.
     if fs p = Some Dir then (Inl IsADirectoryError, fs)
     else case parent_error fs p of
            Some e \<Rightarrow> (Inl e, fs)
          | None \<Rightarrow> (Inr (), fs(p \<mapsto> File c)))"

definition open_append :: "path \<Rightarrow> 'c \<Rightarrow> ('c filesystem, unit) prog" where
  \<comment> \<open>open in mode \<^verbatim>\<open>'a'\<close>: an existing file is kept, a missing one is created with
      the content \<open>c0\<close> of an empty file\<close>
  "open_append p c0 = (\<lambda>fs.
     case fs p of
       Some Dir \<Rightarrow> (Inl IsADirectoryError, fs)
     | Some (File _) \<Rightarrow> (Inr (), fs)
     | None \<Rightarrow>
         (case parent_error fs p of
            Some e \<Rightarrow> (Inl e, fs)
          | None \<Rightarrow> (Inr (), fs(p \<mapsto> File c0))))"

definition open_read :: "'c filesystem \<Rightarrow> path \<Rightarrow> py_error + 'c" where
  "open_read fs p =
     (case fs p of
        Some (File c) \<Rightarrow> Inr c
      | Some Dir \<Rightarrow> Inl IsADirectoryError
      | None \<Rightarrow>
         (case fs (dirname p) of
            Some (File _) \<Rightarrow> Inl NotADirectoryError
          | _ \<Rightarrow> Inl FileNotFoundError))"

section \<open>Checkpoints\<close>

type_synonym checkpoint = "string \<rightharpoonup> pyval"

definition torch_save :: "checkpoint \<Rightarrow> path \<Rightarrow> (checkpoint filesystem, unit) prog" where
  "torch_save obj f = open_write f obj"

definition torch_load :: "checkpoint filesystem \<Rightarrow> path \<Rightarrow> py_error + checkpoint" where
  "torch_load fs f = open_read fs f"

definition save_checkpoint :: "checkpoint \<Rightarrow> path \<Rightarrow> (checkpoint filesystem, unit) prog" where
  "save_checkpoint state checkpoint =
     (let filepath = path_join checkpoint ''model.pth.tar'' in
      bind (\<lambda>fs. if \<not> path_exists fs checkpoint then mkdir checkpoint fs else ret () fs)
        (\<lambda>_. torch_save state filepath))"

text \<open>
  The networks and the optimizers are \<^verbatim>\<open>torch\<close> objects that the caller builds; their
  classes are not part of the module. What the module sees of one is the state it holds.
\<close>

record network =
  state_dict :: pyval

record optim =
  optim_state :: pyval

text \<open>
  Modelled from the spec: \<^verbatim>\<open>load_state_dict\<close> of a network, which the module calls and
  \<^verbatim>\<open>torch\<close> defines. The specification takes a network state as an opaque blob and the
  call as the replacement, in place, of the parameters the network holds by the ones it
  is given. A state that does not fit the architecture of the network is outside this
  model.
\<close>

definition load_state_dict :: "pyval \<Rightarrow> network \<Rightarrow> network" where
  "load_state_dict sd net = net\<lparr>state_dict := sd\<rparr>"

text \<open>
  Modelled from the spec: \<^verbatim>\<open>load_state_dict\<close> of an optimizer, likewise the replacement in
  place of the state the optimizer holds.
\<close>

definition optim_load_state_dict :: "pyval \<Rightarrow> optim \<Rightarrow> optim" where
  "optim_load_state_dict sd opt = opt\<lparr>optim_state := sd\<rparr>"

text \<open>
  The objects \<^verbatim>\<open>load_checkpoint\<close> is handed and mutates: the pair \<^verbatim>\<open>model\<close> and the
  optional pair \<^verbatim>\<open>optimizer\<close> (\<^verbatim>\<open>None\<close> by default).
\<close>

record objects =
  generator :: network
  discriminator :: network
  optimizer :: "(optim \<times> optim) option"

type_synonym loaded = "pyval \<times> network \<times> network \<times> pyval \<times> pyval \<times> pyval \<times> pyval"

definition restore_optimizers :: "checkpoint \<Rightarrow> (objects, unit) prog" where
  \<comment> \<open>the body of \<^verbatim>\<open>if optimizer:\<close>; a pair is truthy, \<^verbatim>\<open>None\<close> is not\<close>
  "restore_optimizers checkpoint = (\<lambda>s.
     case optimizer s of
       None \<Rightarrow> ret () s
     | Some (optim_G, optim_D) \<Rightarrow>
         bind (lift (getitem checkpoint ''optim_G_state_dict'')) (\<lambda>osd_G.
         bind (modify (\<lambda>s. s\<lparr>optimizer :=
                 Some (optim_load_state_dict osd_G optim_G, optim_D)\<rparr>)) (\<lambda>_.
         bind (lift (getitem checkpoint ''optim_D_state_dict'')) (\<lambda>osd_D.
         modify (\<lambda>s. s\<lparr>optimizer :=
                 Some (optim_load_state_dict osd_G optim_G,
                       optim_load_state_dict osd_D optim_D)\<rparr>)))) s)"

definition load_checkpoint :: "checkpoint filesystem \<Rightarrow> path \<Rightarrow> (objects, loaded) prog" where
  "load_checkpoint fs checkpoint =
     (if \<not> path_exists fs checkpoint then raise TypeError
      else
        bind (lift (torch_load fs checkpoint)) (\<lambda>checkpoint.
        bind (lift (getitem checkpoint ''iters'')) (\<lambda>iters.
        bind (lift (getitem checkpoint ''gen_loss_history'')) (\<lambda>gen_loss_history.
        bind (lift (getitem checkpoint ''dis_loss_history'')) (\<lambda>dis_loss_history.
        bind (lift (getitem checkpoint ''dis_loss_real_history'')) (\<lambda>dis_loss_real_history.
        bind (lift (getitem checkpoint ''dis_loss_fake_history'')) (\<lambda>dis_loss_fake_history.
        bind (lift (getitem checkpoint ''gen_state_dict'')) (\<lambda>gsd.
        bind (modify (\<lambda>s. s\<lparr>generator := load_state_dict gsd (generator s)\<rparr>)) (\<lambda>_.
        bind (lift (getitem checkpoint ''dis_state_dict'')) (\<lambda>dsd.
        bind (modify (\<lambda>s. s\<lparr>discriminator := load_state_dict dsd (discriminator s)\<rparr>)) (\<lambda>_.
        bind (restore_optimizers checkpoint) (\<lambda>_.
        (\<lambda>s. ret (iters, generator s, discriminator s, gen_loss_history, dis_loss_history,
                   dis_loss_real_history, dis_loss_fake_history) s)
        ))))))))))))"

text \<open>
  The keys \<^verbatim>\<open>load_checkpoint\<close> subscripts, in the order it reads them when it is given an
  optimizer pair.
\<close>

definition fields_read :: "string list" where
  "fields_read =
     [''iters'', ''gen_loss_history'', ''dis_loss_history'', ''dis_loss_real_history'',
      ''dis_loss_fake_history'', ''gen_state_dict'', ''dis_state_dict'',
      ''optim_G_state_dict'', ''optim_D_state_dict'']"

text \<open>
  The states the specification calls valid: a non-negative iteration count, the parameter
  sets of both networks, generator and discriminator loss histories of equal length, and
  the optimizer states both present or both absent.
\<close>

definition valid_state :: "checkpoint \<Rightarrow> bool" where
  "valid_state S =
     ((case S ''iters'' of Some (IntV n) \<Rightarrow> 0 \<le> n | _ \<Rightarrow> False) \<and>
      (case S ''gen_state_dict'' of Some (StateDictV _) \<Rightarrow> True | _ \<Rightarrow> False) \<and>
      (case S ''dis_state_dict'' of Some (StateDictV _) \<Rightarrow> True | _ \<Rightarrow> False) \<and>
      (case S ''gen_loss_history'' of
         Some (FloatsV g) \<Rightarrow>
           (case S ''dis_loss_history'' of
              Some (FloatsV d) \<Rightarrow> length g = length d
            | _ \<Rightarrow> False)
       | _ \<Rightarrow> False) \<and>
      ((S ''optim_G_state_dict'' = None) = (S ''optim_D_state_dict'' = None)))"

section \<open>Loss-history plots\<close>

text \<open>
  A figure is kept as what was drawn, not as pixels: the rolling mean (the window and the
  named columns of the data frame it is taken of) or a line plot with its axis labels.
\<close>

datatype figure =
    RollingMeanPlot nat "(string \<times> float list) list"
  | LinePlot "float list" string string

datatype artifact =
    PngImage figure
  | MatFile "(string \<times> float list) list"

definition dataframe :: "(string \<times> float list) list \<Rightarrow> py_error + (string \<times> float list) list" where
  \<comment> \<open>\<^verbatim>\<open>pd.DataFrame\<close> of a dictionary of lists: the columns must be equally long\<close>
  "dataframe cols =
     (if list_all (\<lambda>c. length (snd c) = length (snd (hd cols))) cols then Inr cols
      else Inl ValueError)"

definition savefig :: "path \<Rightarrow> figure \<Rightarrow> (artifact filesystem, unit) prog" where
  "savefig p fig = open_write p (PngImage fig)"

definition savemat :: "path \<Rightarrow> (string \<times> float list) list \<Rightarrow> (artifact filesystem, unit) prog" where
  "savemat p mdict = open_write p (MatFile mdict)"

definition str_append :: "path \<Rightarrow> string list \<Rightarrow> path" where
  \<comment> \<open>\<^verbatim>\<open>output_dir + '/figures/history.png'\<close>: the string concatenation appends the
      components that the suffix names\<close>
  "str_append d suffix = d @ suffix"

fun plot_loss_history :: "float list list \<Rightarrow> path \<Rightarrow> (artifact filesystem, unit) prog" where
  "plot_loss_history [gen_loss_history, dis_loss_history] output_dir =
     (if gen_loss_history \<noteq> [] \<and> dis_loss_history \<noteq> [] then
        bind (lift (dataframe [(''generator'', gen_loss_history),
                               (''disciminator'', dis_loss_history)])) (\<lambda>df.
        bind (savefig (str_append output_dir [''figures'', ''history.png''])
                (RollingMeanPlot 10 df)) (\<lambda>_.
        (let history_path = path_join output_dir ''history.mat'' in
         savemat history_path [(''gen_loss_history'', gen_loss_history),
                               (''dis_loss_history'', dis_loss_history)])))
      else ret ())"
| "plot_loss_history [gen_loss_history, dis_loss_history, Eff_history] output_dir =
     (if gen_loss_history \<noteq> [] \<and> dis_loss_history \<noteq> [] then
        bind (lift (dataframe [(''generator'', gen_loss_history),
                               (''disciminator'', dis_loss_history)])) (\<lambda>df.
        bind (savefig (str_append output_dir [''figures'', ''history.png''])
                (RollingMeanPlot 10 df)) (\<lambda>_.
        bind (savefig (str_append output_dir [''figures'', ''Eff_history.png''])
                (LinePlot Eff_history ''Avarage Efficiency'' ''iteration/200'')) (\<lambda>_.
        (let history_path = path_join output_dir ''history.mat'' in
         savemat history_path [(''gen_loss_history'', gen_loss_history),
                               (''dis_loss_history'', dis_loss_history),
                               (''Eff_history'', Eff_history)]))))
      else ret ())"
| "plot_loss_history _ output_dir = raise ValueError"

section \<open>The key-pair table\<close>

text \<open>
  The file is the list of rows \<^verbatim>\<open>csv.reader\<close> yields, each a list of fields.
\<close>

type_synonym table = "string \<times> string \<rightharpoonup> string"

fun row_csv2dict_loop :: "table \<Rightarrow> string list list \<Rightarrow> py_error + table" where
  "row_csv2dict_loop dict_club [] = Inr dict_club"
| "row_csv2dict_loop dict_club (row # reader) =
     (case row of
        r0 # r1 # r2 # _ \<Rightarrow> row_csv2dict_loop (dict_club((r0, r1) \<mapsto> r2)) reader
      | _ \<Rightarrow> Inl IndexError)"

definition row_csv2dict :: "string list list filesystem \<Rightarrow> path \<Rightarrow> py_error + table" where
  "row_csv2dict fs csv_file =
     (case open_read fs csv_file of
        Inl e \<Rightarrow> Inl e
      | Inr reader \<Rightarrow> row_csv2dict_loop Map.empty reader)"

section \<open>The root logger\<close>

datatype handler =
    FileHandler path "string option"
  | StreamHandler "string option"

record logger =
  level :: nat
  handlers :: "handler list"

text \<open>The process-wide state of \<^verbatim>\<open>logging\<close>: the root logger, and the files a log goes to.\<close>

record logging_state =
  log_fs :: "string list filesystem"
  root :: logger

definition INFO :: nat where
  "INFO = 20"

definition new_FileHandler :: "path \<Rightarrow> (logging_state, handler) prog" where
  \<comment> \<open>\<^verbatim>\<open>logging.FileHandler(p)\<close> opens the file at once, in append mode\<close>
  "new_FileHandler p = (\<lambda>s.
     case open_append p [] (log_fs s) of
       (Inl e, _) \<Rightarrow> (Inl e, s)
     | (Inr _, fs') \<Rightarrow> (Inr (FileHandler p None), s\<lparr>log_fs := fs'\<rparr>))"

fun setFormatter :: "string \<Rightarrow> handler \<Rightarrow> handler" where
  "setFormatter fmt (FileHandler p _) = FileHandler p (Some fmt)"
| "setFormatter fmt (StreamHandler _) = StreamHandler (Some fmt)"

definition setLevel :: "nat \<Rightarrow> (logging_state, unit) prog" where
  "setLevel l = modify (\<lambda>s. s\<lparr>root := (root s)\<lparr>level := l\<rparr>\<rparr>)"

definition addHandler :: "handler \<Rightarrow> (logging_state, unit) prog" where
  "addHandler h = modify (\<lambda>s. s\<lparr>root := (root s)\<lparr>handlers := handlers (root s) @ [h]\<rparr>\<rparr>)"

definition set_logger :: "path \<Rightarrow> (logging_state, unit) prog" where
  "set_logger log_path =
     bind (setLevel INFO) (\<lambda>_.
     (\<lambda>s. if handlers (root s) = [] then
        bind (new_FileHandler log_path) (\<lambda>file_handler.
        bind (addHandler
                (setFormatter ''%(asctime)s:%(levelname)s: %(message)s'' file_handler)) (\<lambda>_.
        addHandler (setFormatter ''%(message)s'' (StreamHandler None)))) s
      else ret () s))"

fun is_file_handler :: "handler \<Rightarrow> bool" where
  "is_file_handler (FileHandler _ _) = True"
| "is_file_handler (StreamHandler _) = False"

fun is_console_handler :: "handler \<Rightarrow> bool" where
  "is_console_handler (StreamHandler _) = True"
| "is_console_handler (FileHandler _ _) = False"

section \<open>Hyperparameters\<close>

datatype json =
    JNull
  | JBool bool
  | JInt int
  | JFloat float
  | JString string
  | JArray "json list"
  | JObject "(string \<times> json) list"

text \<open>
  The attribute dictionary \<^verbatim>\<open>self.__dict__\<close> of a \<^verbatim>\<open>Params\<close> instance, and the object a
  JSON file parses to.
\<close>

type_synonym attrs = "string \<rightharpoonup> json"

definition json_load :: "attrs filesystem \<Rightarrow> path \<Rightarrow> py_error + attrs" where
  "json_load fs json_path = open_read fs json_path"

definition Params_update :: "attrs filesystem \<Rightarrow> path \<Rightarrow> (attrs, unit) prog" where
  "Params_update fs json_path =
     bind (lift (json_load fs json_path)) (\<lambda>params.
     modify (\<lambda>self. self ++ params))"

definition Params_init :: "attrs filesystem \<Rightarrow> path \<Rightarrow> (py_error + unit) \<times> attrs" where
  "Params_init fs json_path = Params_update fs json_path Map.empty"

section \<open>Concrete inputs\<close>

text \<open>
  A file system holding the root directory only; a state with the five entries of the
  specification's checkpoint record, the same state with the two discriminator
  sub-histories, and a checkpoint holding nothing but the two network states; freshly
  built networks, without and with an optimizer pair.
\<close>

definition ex_root :: "'c filesystem" where
  "ex_root = [[] \<mapsto> Dir]"

definition ex_state5 :: checkpoint where
  "ex_state5 =
     [''iters'' \<mapsto> IntV 2,
      ''gen_state_dict'' \<mapsto> StateDictV [(''fc.weight'', [0x3FF0000000000000])],
      ''dis_state_dict'' \<mapsto> StateDictV [(''fc.weight'', [0x4000000000000000])],
      ''gen_loss_history'' \<mapsto> FloatsV [0x3FE0000000000000, 0x3FD0000000000000],
      ''dis_loss_history'' \<mapsto> FloatsV [0x3FE8000000000000, 0x3FE0000000000000]]"

definition ex_state7 :: checkpoint where
  "ex_state7 =
     ex_state5(''dis_loss_real_history'' \<mapsto> FloatsV [0x3FD0000000000000, 0x3FC0000000000000],
               ''dis_loss_fake_history'' \<mapsto> FloatsV [0x3FE0000000000000, 0x3FD8000000000000])"

definition ex_networks_only :: checkpoint where
  "ex_networks_only =
     [''gen_state_dict'' \<mapsto> StateDictV [(''fc.weight'', [0x3FF0000000000000])],
      ''dis_state_dict'' \<mapsto> StateDictV [(''fc.weight'', [0x4000000000000000])]]"

definition ex_objects :: objects where
  "ex_objects =
     \<lparr>generator = \<lparr>state_dict = StateDictV [(''fc.weight'', [0])]\<rparr>,
      discriminator = \<lparr>state_dict = StateDictV [(''fc.weight'', [0])]\<rparr>,
      optimizer = None\<rparr>"

definition ex_objects_opt :: objects where
  "ex_objects_opt =
     ex_objects\<lparr>optimizer := Some (\<lparr>optim_state = StateDictV []\<rparr>, \<lparr>optim_state = StateDictV []\<rparr>)\<rparr>"

definition ex_logging :: logging_state where
  "ex_logging = \<lparr>log_fs = ex_root, root = \<lparr>level = 30, handlers = []\<rparr>\<rparr>"

text \<open>The same logging state after something else has installed a console handler.\<close>

definition ex_logging_configured :: logging_state where
  "ex_logging_configured =
     \<lparr>log_fs = ex_root, root = \<lparr>level = 30, handlers = [StreamHandler None]\<rparr>\<rparr>"

text \<open>
  An output directory with its \<^verbatim>\<open>figures\<close> subdirectory; a table in which one key pair
  occurs twice; a JSON file and the attributes of a \<^verbatim>\<open>Params\<close> instance that shares one
  key with it.
\<close>

definition ex_out_fs :: "artifact filesystem" where
  "ex_out_fs = [[] \<mapsto> Dir, [''out''] \<mapsto> Dir, [''out'', ''figures''] \<mapsto> Dir]"

definition ex_csv_fs :: "string list list filesystem" where
  "ex_csv_fs =
     ex_root([''table.csv''] \<mapsto>
       File [[''a'', ''b'', ''1''], [''c'', ''d'', ''2''], [''a'', ''b'', ''3'']])"

definition ex_json_fs :: "attrs filesystem" where
  "ex_json_fs =
     ex_root([''params.json''] \<mapsto>
       File [''learning_rate'' \<mapsto> JFloat 0x3F50624DD2F1A9FC, ''batch_size'' \<mapsto> JInt 64])"

definition ex_params :: attrs where
  "ex_params = [''learning_rate'' \<mapsto> JFloat 0x3FE0000000000000, ''epochs'' \<mapsto> JInt 5]"

section \<open>Saving a checkpoint\<close>

lemmas prog_defs = ret_def raise_def bind_def lift_def modify_def

lemma path_join_neq [simp]: "path_join d n \<noteq> d" "d \<noteq> path_join d n"
  by (simp_all add: path_join_def)

lemma dirname_path_join [simp]: "dirname (path_join d n) = d"
  by (simp add: path_join_def dirname_def)


lemma save_checkpoint_Inr:
  assumes "save_checkpoint s d fs = (Inr (), fs1)"
  shows "fs1 d = Some Dir" and "fs1 (path_join d ''model.pth.tar'') = Some (File s)"
  using assms
  by (auto simp: save_checkpoint_def torch_save_def open_write_def mkdir_def parent_error_def
      path_exists_def prog_defs Let_def split: option.splits node.splits if_splits)


lemma save_checkpoint_creates:
  assumes "fs d = None" and "fs (dirname d) = Some Dir"
    and "fs (path_join d ''model.pth.tar'') \<noteq> Some Dir"
  shows "save_checkpoint s d fs =
           (Inr (), fs(d \<mapsto> Dir, path_join d ''model.pth.tar'' \<mapsto> File s))"
  using assms
  by (simp add: save_checkpoint_def torch_save_def open_write_def mkdir_def parent_error_def
      path_exists_def prog_defs Let_def)




section \<open>Loading a checkpoint\<close>

lemma load_checkpoint_missing:
  "fs p = None \<Longrightarrow> load_checkpoint fs p objs = (Inl TypeError, objs)"
  by (simp add: load_checkpoint_def path_exists_def raise_def)

lemma restore_optimizers_None:
  "optimizer s = None \<Longrightarrow> restore_optimizers ck s = (Inr (), s)"
  by (simp add: restore_optimizers_def ret_def)

lemma restore_optimizers_Some:
  assumes "optimizer s = Some (og, od)"
    and "ck ''optim_G_state_dict'' = Some a" and "ck ''optim_D_state_dict'' = Some b"
  shows "restore_optimizers ck s =
    (Inr (), s\<lparr>optimizer := Some (optim_load_state_dict a og, optim_load_state_dict b od)\<rparr>)"
  using assms by (simp add: restore_optimizers_def prog_defs getitem_def)

lemma restore_optimizers_missing_G:
  assumes "optimizer s = Some (og, od)" and "ck ''optim_G_state_dict'' = None"
  shows "restore_optimizers ck s = (Inl (KeyError ''optim_G_state_dict''), s)"
  using assms by (simp add: restore_optimizers_def prog_defs getitem_def)

lemma load_checkpoint_fields:
  assumes "fs p = Some (File ck)"
    and "ck ''iters'' = Some iters"
    and "ck ''gen_loss_history'' = Some glh"
    and "ck ''dis_loss_history'' = Some dlh"
    and "ck ''dis_loss_real_history'' = Some real"
    and "ck ''dis_loss_fake_history'' = Some fake"
    and "ck ''gen_state_dict'' = Some gsd"
    and "ck ''dis_state_dict'' = Some dsd"
  shows "load_checkpoint fs p objs =
    (case restore_optimizers ck
            (objs\<lparr>generator := load_state_dict gsd (generator objs),
                  discriminator := load_state_dict dsd (discriminator objs)\<rparr>) of
       (Inl e, s') \<Rightarrow> (Inl e, s')
     | (Inr _, s') \<Rightarrow> (Inr (iters, generator s', discriminator s', glh, dlh, real, fake), s'))"
  using assms
  by (simp add: load_checkpoint_def path_exists_def torch_load_def open_read_def prog_defs getitem_def
      split: prod.splits sum.splits)

text \<open>
  With every field present, the call returns; the networks hold the stored states, and an
  optimizer pair, when one was given, holds the stored optimizer states.
\<close>

lemma load_checkpoint_complete:
  assumes "fs p = Some (File ck)"
    and "ck ''iters'' = Some iters"
    and "ck ''gen_loss_history'' = Some glh"
    and "ck ''dis_loss_history'' = Some dlh"
    and "ck ''dis_loss_real_history'' = Some real"
    and "ck ''dis_loss_fake_history'' = Some fake"
    and "ck ''gen_state_dict'' = Some gsd"
    and "ck ''dis_state_dict'' = Some dsd"
    and "optimizer objs = None \<or>
         (ck ''optim_G_state_dict'' \<noteq> None \<and> ck ''optim_D_state_dict'' \<noteq> None)"
  shows "load_checkpoint fs p objs =
    (Inr (iters, load_state_dict gsd (generator objs), load_state_dict dsd (discriminator objs),
          glh, dlh, real, fake),
     objs\<lparr>generator := load_state_dict gsd (generator objs),
           discriminator := load_state_dict dsd (discriminator objs),
           optimizer :=
             map_option (\<lambda>(og, od).
                 (optim_load_state_dict (the (ck ''optim_G_state_dict'')) og,
                  optim_load_state_dict (the (ck ''optim_D_state_dict'')) od))
               (optimizer objs)\<rparr>)"
proof (cases "optimizer objs")
  case None
  then show ?thesis
    by (simp add: load_checkpoint_fields[where fs=fs and p=p and ck=ck, OF assms(1-8)]
        restore_optimizers_None)
next
  case (Some pr)
  obtain og od where pr: "pr = (og, od)" by (cases pr)
  from Some assms(9) obtain a b where ab:
    "ck ''optim_G_state_dict'' = Some a" "ck ''optim_D_state_dict'' = Some b" by auto
  let ?s = "objs\<lparr>generator := load_state_dict gsd (generator objs),
                  discriminator := load_state_dict dsd (discriminator objs)\<rparr>"
  have "optimizer ?s = Some (og, od)" using Some pr by simp
  from restore_optimizers_Some[OF this ab]
  show ?thesis
    using Some pr ab
    by (simp add: load_checkpoint_fields[where fs=fs and p=p and ck=ck, OF assms(1-8)])
qed

text \<open>
  Claim C5. On an artifact that holds every field \<open>load_checkpoint\<close> reads, the call
  returns the stored iteration count, the two networks as the call leaves them, holding
  the stored network states, and the four stored histories: generator loss, discriminator
  loss, discriminator-real loss and discriminator-fake loss.
\<close>

theorem load_checkpoint_returns_fields:
  assumes "fs p = Some (File ck)"
    and "ck ''iters'' = Some iters"
    and "ck ''gen_loss_history'' = Some glh"
    and "ck ''dis_loss_history'' = Some dlh"
    and "ck ''dis_loss_real_history'' = Some real"
    and "ck ''dis_loss_fake_history'' = Some fake"
    and "ck ''gen_state_dict'' = Some gsd"
    and "ck ''dis_state_dict'' = Some dsd"
    and "optimizer objs = None \<or>
         (ck ''optim_G_state_dict'' \<noteq> None \<and> ck ''optim_D_state_dict'' \<noteq> None)"
    and "load_checkpoint fs p objs = (r, objs')"
  shows "r = Inr (iters, generator objs', discriminator objs', glh, dlh, real, fake) \<and>
         state_dict (generator objs') = gsd \<and> state_dict (discriminator objs') = dsd"
  using assms(10)
  unfolding load_checkpoint_complete[where fs=fs and p=p and ck=ck, OF assms(1-9)]
  by (auto simp: load_state_dict_def)

theorem load_checkpoint_returns_fields_witness:
  "fst (load_checkpoint (ex_root([''model.pth.tar''] \<mapsto> File ex_state7)) [''model.pth.tar'']
          ex_objects) =
     Inr (IntV 2,
          \<lparr>state_dict = StateDictV [(''fc.weight'', [0x3FF0000000000000])]\<rparr>,
          \<lparr>state_dict = StateDictV [(''fc.weight'', [0x4000000000000000])]\<rparr>,
          FloatsV [0x3FE0000000000000, 0x3FD0000000000000],
          FloatsV [0x3FE8000000000000, 0x3FE0000000000000],
          FloatsV [0x3FD0000000000000, 0x3FC0000000000000],
          FloatsV [0x3FE0000000000000, 0x3FD8000000000000])"
proof -
  let ?fs = "ex_root([''model.pth.tar''] \<mapsto> File ex_state7)"
  let ?run = "load_checkpoint ?fs [''model.pth.tar''] ex_objects"
  have "?run = (fst ?run, snd ?run)" by simp
  from load_checkpoint_returns_fields[where fs="?fs" and p="[''model.pth.tar'']"
      and ck=ex_state7 and objs=ex_objects, OF _ _ _ _ _ _ _ _ _ this,
      of "IntV 2" "FloatsV [0x3FE0000000000000, 0x3FD0000000000000]"
         "FloatsV [0x3FE8000000000000, 0x3FE0000000000000]"
         "FloatsV [0x3FD0000000000000, 0x3FC0000000000000]"
         "FloatsV [0x3FE0000000000000, 0x3FD8000000000000]"
         "StateDictV [(''fc.weight'', [0x3FF0000000000000])]"
         "StateDictV [(''fc.weight'', [0x4000000000000000])]"]
  have "fst ?run = Inr (IntV 2, generator (snd ?run), discriminator (snd ?run),
          FloatsV [0x3FE0000000000000, 0x3FD0000000000000],
          FloatsV [0x3FE8000000000000, 0x3FE0000000000000],
          FloatsV [0x3FD0000000000000, 0x3FC0000000000000],
          FloatsV [0x3FE0000000000000, 0x3FD8000000000000]) \<and>
        state_dict (generator (snd ?run)) = StateDictV [(''fc.weight'', [0x3FF0000000000000])] \<and>
        state_dict (discriminator (snd ?run)) = StateDictV [(''fc.weight'', [0x4000000000000000])]"
    by (simp add: ex_state7_def ex_state5_def ex_objects_def)
  then show ?thesis
    by (cases "generator (snd ?run)"; cases "discriminator (snd ?run)") simp
qed

lemma valid_state_fields:
  assumes "valid_state S"
  shows "S ''iters'' \<noteq> None" "S ''gen_loss_history'' \<noteq> None" "S ''dis_loss_history'' \<noteq> None"
    "S ''gen_state_dict'' \<noteq> None" "S ''dis_state_dict'' \<noteq> None"
    "(S ''optim_G_state_dict'' = None) = (S ''optim_D_state_dict'' = None)"
  using assms by (auto simp: valid_state_def split: option.splits pyval.splits)

text \<open>
  Claim C1, as amended. A valid state that also holds the two discriminator sub-histories
  \<^verbatim>\<open>dis_loss_real_history\<close> and \<^verbatim>\<open>dis_loss_fake_history\<close> (and the optimizer states, when
  the load is given an optimizer pair) survives the round trip: whenever
  \<open>save_checkpoint\<close> returns, \<open>load_checkpoint\<close> on the artifact under the same
  directory returns the iteration count and the loss histories of the state, the two
  sub-histories with them, and leaves in both networks exactly the parameters the state
  holds.
\<close>

theorem save_load_roundtrip:
  assumes "valid_state S"
    and "S ''dis_loss_real_history'' = Some real"
    and "S ''dis_loss_fake_history'' = Some fake"
    and "optimizer objs = None \<or> S ''optim_G_state_dict'' \<noteq> None"
    and "save_checkpoint S dir fs = (Inr (), fs')"
    and "load_checkpoint fs' (path_join dir ''model.pth.tar'') objs = (r, objs')"
  shows "r = Inr (the (S ''iters''), generator objs', discriminator objs',
                  the (S ''gen_loss_history''), the (S ''dis_loss_history''), real, fake) \<and>
         state_dict (generator objs') = the (S ''gen_state_dict'') \<and>
         state_dict (discriminator objs') = the (S ''dis_state_dict'')"
proof -
  note v = valid_state_fields[OF assms(1)]
  have saved: "fs' (path_join dir ''model.pth.tar'') = Some (File S)"
    using save_checkpoint_Inr(2)[OF assms(5)] .
  have opt: "optimizer objs = None \<or>
      (S ''optim_G_state_dict'' \<noteq> None \<and> S ''optim_D_state_dict'' \<noteq> None)"
    using assms(4) v(6) by auto
  from v obtain it glh dlh gsd dsd where f:
    "S ''iters'' = Some it" "S ''gen_loss_history'' = Some glh" "S ''dis_loss_history'' = Some dlh"
    "S ''gen_state_dict'' = Some gsd" "S ''dis_state_dict'' = Some dsd"
    by auto
  show ?thesis
    using assms(6)
    unfolding load_checkpoint_complete[where fs=fs' and ck=S, OF saved f(1,2,3) assms(2,3) f(4,5) opt]
    by (auto simp: load_state_dict_def f)
qed

theorem save_load_roundtrip_witness:
  "valid_state ex_state7 \<and>
   fst (save_checkpoint ex_state7 [''ckpt''] ex_root) = Inr () \<and>
   fst (load_checkpoint (snd (save_checkpoint ex_state7 [''ckpt''] ex_root))
          (path_join [''ckpt''] ''model.pth.tar'') ex_objects) =
     Inr (IntV 2,
          \<lparr>state_dict = StateDictV [(''fc.weight'', [0x3FF0000000000000])]\<rparr>,
          \<lparr>state_dict = StateDictV [(''fc.weight'', [0x4000000000000000])]\<rparr>,
          FloatsV [0x3FE0000000000000, 0x3FD0000000000000],
          FloatsV [0x3FE8000000000000, 0x3FE0000000000000],
          FloatsV [0x3FD0000000000000, 0x3FC0000000000000],
          FloatsV [0x3FE0000000000000, 0x3FD8000000000000])"
proof -
  let ?save = "save_checkpoint ex_state7 [''ckpt''] ex_root"
  let ?run = "load_checkpoint (snd ?save) (path_join [''ckpt''] ''model.pth.tar'') ex_objects"
  have v: "valid_state ex_state7"
    by (simp add: valid_state_def ex_state7_def ex_state5_def)
  have s: "fst ?save = Inr ()"
    by (simp add: save_checkpoint_creates ex_root_def dirname_def path_join_def)
  then have s': "?save = (Inr (), snd ?save)"
    by (metis prod.collapse)
  have l: "?run = (fst ?run, snd ?run)" by simp
  have o: "optimizer ex_objects = None \<or> ex_state7 ''optim_G_state_dict'' \<noteq> None"
    by (simp add: ex_objects_def)
  from save_load_roundtrip[OF v _ _ o s' l,
      of "FloatsV [0x3FD0000000000000, 0x3FC0000000000000]"
         "FloatsV [0x3FE0000000000000, 0x3FD8000000000000]"]
  have "fst ?run = Inr (IntV 2, generator (snd ?run), discriminator (snd ?run),
          FloatsV [0x3FE0000000000000, 0x3FD0000000000000],
          FloatsV [0x3FE8000000000000, 0x3FE0000000000000],
          FloatsV [0x3FD0000000000000, 0x3FC0000000000000],
          FloatsV [0x3FE0000000000000, 0x3FD8000000000000]) \<and>
        state_dict (generator (snd ?run)) = StateDictV [(''fc.weight'', [0x3FF0000000000000])] \<and>
        state_dict (discriminator (snd ?run)) = StateDictV [(''fc.weight'', [0x4000000000000000])]"
    by (simp add: ex_state7_def ex_state5_def)
  then have "fst ?run = Inr (IntV 2,
          \<lparr>state_dict = StateDictV [(''fc.weight'', [0x3FF0000000000000])]\<rparr>,
          \<lparr>state_dict = StateDictV [(''fc.weight'', [0x4000000000000000])]\<rparr>,
          FloatsV [0x3FE0000000000000, 0x3FD0000000000000],
          FloatsV [0x3FE8000000000000, 0x3FE0000000000000],
          FloatsV [0x3FD0000000000000, 0x3FC0000000000000],
          FloatsV [0x3FE0000000000000, 0x3FD8000000000000])"
    by (cases "generator (snd ?run)"; cases "discriminator (snd ?run)") simp
  with v s show ?thesis by blast
qed

text \<open>
  The claim as first stated fails: a valid state with the five entries of the checkpoint
  record is saved, and the load of that artifact raises \<open>KeyError\<close> at the first
  sub-history, before it has touched a network.
\<close>

theorem save_load_roundtrip_counterexample:
  "valid_state ex_state5 \<and>
   save_checkpoint ex_state5 [''ckpt''] ex_root =
     (Inr (), ex_root([''ckpt''] \<mapsto> Dir, [''ckpt'', ''model.pth.tar''] \<mapsto> File ex_state5)) \<and>
   load_checkpoint (ex_root([''ckpt''] \<mapsto> Dir, [''ckpt'', ''model.pth.tar''] \<mapsto> File ex_state5))
       [''ckpt'', ''model.pth.tar''] ex_objects =
     (Inl (KeyError ''dis_loss_real_history''), ex_objects)"
proof (intro conjI)
  show "valid_state ex_state5"
    by (simp add: valid_state_def ex_state5_def)
  show "save_checkpoint ex_state5 [''ckpt''] ex_root =
     (Inr (), ex_root([''ckpt''] \<mapsto> Dir, [''ckpt'', ''model.pth.tar''] \<mapsto> File ex_state5))"
    using save_checkpoint_creates[of ex_root "[''ckpt'']" ex_state5]
    by (simp add: ex_root_def dirname_def path_join_def)
  show "load_checkpoint (ex_root([''ckpt''] \<mapsto> Dir, [''ckpt'', ''model.pth.tar''] \<mapsto> File ex_state5))
       [''ckpt'', ''model.pth.tar''] ex_objects =
     (Inl (KeyError ''dis_loss_real_history''), ex_objects)"
    by (simp add: load_checkpoint_def path_exists_def torch_load_def open_read_def prog_defs
        getitem_def ex_state5_def)
qed

text \<open>
  Claim C3. A load from a path that does not exist changes neither network, but what it
  raises is \<open>TypeError\<close>: line 122 raises a string, \<^verbatim>\<open>raise("File doesn't exist ...")\<close>,
  and Python refuses to raise what is not an exception. No error of a not-found kind
  reaches the caller.
\<close>

theorem load_checkpoint_missing_path:
  "(ex_root :: checkpoint filesystem) [''ckpt'', ''model.pth.tar''] = None \<and>
   load_checkpoint ex_root [''ckpt'', ''model.pth.tar''] ex_objects = (Inl TypeError, ex_objects)"
  by (simp add: load_checkpoint_missing ex_root_def)

text \<open>
  Claim C4. An artifact saved without optimizer state cannot be loaded with an optimizer
  pair: the call fails with a \<open>KeyError\<close> that names the first field, in reading
  order, that the artifact lacks (Python's error for the missing field of a
  deserialized artifact), and so never returns with the optimizers as they were.
\<close>

theorem load_checkpoint_without_optimizer_state:
  assumes "fs p = Some (File ck)"
    and "ck ''optim_G_state_dict'' = None" and "ck ''optim_D_state_dict'' = None"
    and "optimizer objs = Some (og, od)"
  shows "\<exists>k. find (\<lambda>k. ck k = None) fields_read = Some k \<and>
             fst (load_checkpoint fs p objs) = Inl (KeyError k)"
  using assms
  apply (simp add: load_checkpoint_def path_exists_def torch_load_def open_read_def fields_read_def)
  apply (simp add: prog_defs getitem_def restore_optimizers_def split: option.splits)
  done

theorem load_checkpoint_without_optimizer_state_witness:
  "fst (load_checkpoint (ex_root([''model.pth.tar''] \<mapsto> File ex_state7)) [''model.pth.tar'']
          ex_objects_opt) = Inl (KeyError ''optim_G_state_dict'')"
proof -
  let ?fs = "ex_root([''model.pth.tar''] \<mapsto> File ex_state7)"
  have "\<exists>k. find (\<lambda>k. ex_state7 k = None) fields_read = Some k \<and>
          fst (load_checkpoint ?fs [''model.pth.tar''] ex_objects_opt) = Inl (KeyError k)"
    by (rule load_checkpoint_without_optimizer_state[where fs="?fs" and ck=ex_state7])
       (simp_all add: ex_state7_def ex_state5_def ex_objects_opt_def)
  moreover have "find (\<lambda>k. ex_state7 k = None) fields_read = Some ''optim_G_state_dict''"
    by (simp add: fields_read_def ex_state7_def ex_state5_def)
  ultimately show ?thesis by simp
qed

text \<open>
  Claim C9, as amended. The load is not atomic. On an artifact that holds every field
  read before the optimizer states (the iteration count, the four histories and both
  network states) but no optimizer state, a load with an optimizer pair fails with
  \<open>KeyError\<close> on \<^verbatim>\<open>optim_G_state_dict\<close> only after both networks have been overwritten:
  the networks are left holding the stored parameters, the optimizers are untouched.
\<close>

theorem load_checkpoint_not_atomic:
  assumes "fs p = Some (File ck)"
    and "ck ''iters'' = Some iters"
    and "ck ''gen_loss_history'' = Some glh"
    and "ck ''dis_loss_history'' = Some dlh"
    and "ck ''dis_loss_real_history'' = Some real"
    and "ck ''dis_loss_fake_history'' = Some fake"
    and "ck ''gen_state_dict'' = Some gsd"
    and "ck ''dis_state_dict'' = Some dsd"
    and "ck ''optim_G_state_dict'' = None" and "ck ''optim_D_state_dict'' = None"
    and "optimizer objs = Some (og, od)"
    and "load_checkpoint fs p objs = (r, objs')"
  shows "r = Inl (KeyError ''optim_G_state_dict'') \<and>
         state_dict (generator objs') = gsd \<and> state_dict (discriminator objs') = dsd \<and>
         optimizer objs' = Some (og, od)"
proof -
  let ?s = "objs\<lparr>generator := load_state_dict gsd (generator objs),
                  discriminator := load_state_dict dsd (discriminator objs)\<rparr>"
  have "optimizer ?s = Some (og, od)" using assms(11) by simp
  from restore_optimizers_missing_G[where s="?s" and ck=ck, OF this assms(9)] assms(12)
  show ?thesis
    unfolding load_checkpoint_fields[where fs=fs and p=p and ck=ck, OF assms(1-8)]
    by (auto simp: load_state_dict_def assms(11))
qed

theorem load_checkpoint_not_atomic_witness:
  "load_checkpoint (ex_root([''model.pth.tar''] \<mapsto> File ex_state7)) [''model.pth.tar'']
      ex_objects_opt =
     (Inl (KeyError ''optim_G_state_dict''),
      ex_objects_opt\<lparr>generator := \<lparr>state_dict = StateDictV [(''fc.weight'', [0x3FF0000000000000])]\<rparr>,
                     discriminator := \<lparr>state_dict = StateDictV [(''fc.weight'', [0x4000000000000000])]\<rparr>\<rparr>)"
proof -
  let ?fs = "ex_root([''model.pth.tar''] \<mapsto> File ex_state7)"
  let ?run = "load_checkpoint ?fs [''model.pth.tar''] ex_objects_opt"
  have l: "?run = (fst ?run, snd ?run)" by simp
  have "fst ?run = Inl (KeyError ''optim_G_state_dict'') \<and>
        state_dict (generator (snd ?run)) = StateDictV [(''fc.weight'', [0x3FF0000000000000])] \<and>
        state_dict (discriminator (snd ?run)) = StateDictV [(''fc.weight'', [0x4000000000000000])] \<and>
        optimizer (snd ?run) = Some (\<lparr>optim_state = StateDictV []\<rparr>, \<lparr>optim_state = StateDictV []\<rparr>)"
    by (rule load_checkpoint_not_atomic[where fs="?fs" and ck=ex_state7, OF _ _ _ _ _ _ _ _ _ _ _ l])
       (simp_all add: ex_state7_def ex_state5_def ex_objects_opt_def)
  then have "fst ?run = Inl (KeyError ''optim_G_state_dict'')" and
    "snd ?run = ex_objects_opt\<lparr>generator := \<lparr>state_dict = StateDictV [(''fc.weight'', [0x3FF0000000000000])]\<rparr>,
                     discriminator := \<lparr>state_dict = StateDictV [(''fc.weight'', [0x4000000000000000])]\<rparr>\<rparr>"
    by (cases "snd ?run"; cases "generator (snd ?run)"; cases "discriminator (snd ?run)";
        simp add: ex_objects_opt_def ex_objects_def)+
  then show ?thesis by (metis prod.collapse)
qed

text \<open>
  The claim as first stated asks only for the two network states. On such an artifact
  the load fails earlier, at \<^verbatim>\<open>checkpoint['iters']\<close>, and the networks are left as they
  were.
\<close>

theorem load_checkpoint_not_atomic_counterexample:
  "ex_networks_only ''gen_state_dict'' = Some (StateDictV [(''fc.weight'', [0x3FF0000000000000])]) \<and>
   ex_networks_only ''dis_state_dict'' = Some (StateDictV [(''fc.weight'', [0x4000000000000000])]) \<and>
   ex_networks_only ''optim_G_state_dict'' = None \<and>
   ex_networks_only ''optim_D_state_dict'' = None \<and>
   load_checkpoint (ex_root([''model.pth.tar''] \<mapsto> File ex_networks_only)) [''model.pth.tar'']
      ex_objects_opt = (Inl (KeyError ''iters''), ex_objects_opt) \<and>
   state_dict (generator ex_objects_opt) = StateDictV [(''fc.weight'', [0])]"
  by (simp add: load_checkpoint_def path_exists_def torch_load_def open_read_def prog_defs
        getitem_def ex_networks_only_def ex_objects_opt_def ex_objects_def)

section \<open>Plotting the loss history\<close>

lemma dirname_str_append2: "dirname (str_append out [a, b]) = str_append out [a]"
  by (simp add: dirname_def str_append_def butlast_append)

text \<open>
  Claim C6, as amended. For a pair or a triple of histories whose generator and
  discriminator histories are non-empty and equally long, in an output directory that
  has a \<^verbatim>\<open>figures\<close> subdirectory, \<open>plot_loss_history\<close> writes the plot \<^verbatim>\<open>history.png\<close>
  under \<^verbatim>\<open>figures\<close> (for a triple also \<^verbatim>\<open>Eff_history.png\<close>), and writes \<^verbatim>\<open>history.mat\<close>,
  holding the histories, into the output directory itself, not under \<^verbatim>\<open>figures\<close>.
\<close>

theorem plot_loss_history_writes:
  assumes "gen \<noteq> []" and "dis \<noteq> []" and "length gen = length dis"
    and "fs out = Some Dir" and "fs (str_append out [''figures'']) = Some Dir"
    and "fs (str_append out [''figures'', ''history.png'']) \<noteq> Some Dir"
    and "fs (str_append out [''figures'', ''Eff_history.png'']) \<noteq> Some Dir"
    and "fs (path_join out ''history.mat'') \<noteq> Some Dir"
  shows "plot_loss_history [gen, dis] out fs =
           (Inr (),
            fs(str_append out [''figures'', ''history.png''] \<mapsto>
                 File (PngImage (RollingMeanPlot 10 [(''generator'', gen), (''disciminator'', dis)])),
               path_join out ''history.mat'' \<mapsto>
                 File (MatFile [(''gen_loss_history'', gen), (''dis_loss_history'', dis)]))) \<and>
         plot_loss_history [gen, dis, eff] out fs =
           (Inr (),
            fs(str_append out [''figures'', ''history.png''] \<mapsto>
                 File (PngImage (RollingMeanPlot 10 [(''generator'', gen), (''disciminator'', dis)])),
               str_append out [''figures'', ''Eff_history.png''] \<mapsto>
                 File (PngImage (LinePlot eff ''Avarage Efficiency'' ''iteration/200'')),
               path_join out ''history.mat'' \<mapsto>
                 File (MatFile [(''gen_loss_history'', gen), (''dis_loss_history'', dis),
                                (''Eff_history'', eff)])))"
proof -
  have df: "dataframe [(''generator'', gen), (''disciminator'', dis)] =
              Inr [(''generator'', gen), (''disciminator'', dis)]"
    using assms(3) by (simp add: dataframe_def)
  have ne: "path_join out ''history.mat'' \<noteq> out" "path_join out ''history.mat'' \<noteq> str_append out [''figures'']"
     "str_append out [''figures'', ''history.png''] \<noteq> out"
     "str_append out [''figures'', ''history.png''] \<noteq> str_append out [''figures'']"
     "str_append out [''figures'', ''Eff_history.png''] \<noteq> out"
     "str_append out [''figures'', ''Eff_history.png''] \<noteq> str_append out [''figures'']"
     "str_append out [''figures'', ''Eff_history.png''] \<noteq> str_append out [''figures'', ''history.png'']"
     "path_join out ''history.mat'' \<noteq> str_append out [''figures'', ''history.png'']"
     "path_join out ''history.mat'' \<noteq> str_append out [''figures'', ''Eff_history.png'']"
    by (simp_all add: path_join_def str_append_def)
  show ?thesis
    using assms df ne
    by (simp add: savefig_def savemat_def open_write_def parent_error_def prog_defs
        dirname_str_append2 Let_def)
qed

theorem plot_loss_history_writes_witness:
  "plot_loss_history [[0x3FE0000000000000], [0x3FE8000000000000]] [''out''] ex_out_fs =
     (Inr (),
      ex_out_fs([''out'', ''figures'', ''history.png''] \<mapsto>
          File (PngImage (RollingMeanPlot 10
                  [(''generator'', [0x3FE0000000000000]), (''disciminator'', [0x3FE8000000000000])])),
        [''out'', ''history.mat''] \<mapsto>
          File (MatFile [(''gen_loss_history'', [0x3FE0000000000000]),
                         (''dis_loss_history'', [0x3FE8000000000000])])))"
  using plot_loss_history_writes[of "[0x3FE0000000000000]" "[0x3FE8000000000000]" ex_out_fs
      "[''out'']" "[]"]
  by (simp add: ex_out_fs_def str_append_def path_join_def)

text \<open>
  The claim as first stated places both files under \<^verbatim>\<open>figures\<close>: after the call nothing
  is at \<^verbatim>\<open>figures/history.mat\<close>.
\<close>

theorem plot_loss_history_counterexample:
  "fst (plot_loss_history [[0x3FE0000000000000], [0x3FE8000000000000]] [''out''] ex_out_fs) = Inr () \<and>
   snd (plot_loss_history [[0x3FE0000000000000], [0x3FE8000000000000]] [''out''] ex_out_fs)
       [''out'', ''figures'', ''history.mat''] = None \<and>
   snd (plot_loss_history [[0x3FE0000000000000], [0x3FE8000000000000]] [''out''] ex_out_fs)
       [''out'', ''history.mat''] =
     Some (File (MatFile [(''gen_loss_history'', [0x3FE0000000000000]),
                          (''dis_loss_history'', [0x3FE8000000000000])]))"
  by (simp add: savefig_def savemat_def open_write_def parent_error_def prog_defs dataframe_def
      str_append_def path_join_def dirname_def ex_out_fs_def Let_def)

section \<open>Reading the key-pair table\<close>

lemma row_csv2dict_loop_returns:
  "\<forall>row \<in> set rows. length row = 3 \<Longrightarrow> \<exists>m'. row_csv2dict_loop m rows = Inr m'"
proof (induction rows arbitrary: m)
  case Nil
  then show ?case by simp
next
  case (Cons row rows)
  then have "length row = 3" by simp
  then obtain a b c where "row = [a, b, c]"
    by (cases row; simp; cases "tl row"; simp; cases "tl (tl row)"; simp)
  with Cons show ?case by simp
qed

lemma row_csv2dict_loop_frame:
  "row_csv2dict_loop m rows = Inr m' \<Longrightarrow> \<forall>r \<in> set rows. take 2 r \<noteq> [a, b] \<Longrightarrow> m' (a, b) = m (a, b)"
proof (induction rows arbitrary: m)
  case Nil
  then show ?case by simp
next
  case (Cons row rows)
  then show ?case
    by (auto split: list.splits)
qed

lemma row_csv2dict_loop_append:
  "row_csv2dict_loop m (pre @ post) =
     (case row_csv2dict_loop m pre of Inl e \<Rightarrow> Inl e | Inr m1 \<Rightarrow> row_csv2dict_loop m1 post)"
  by (induction pre arbitrary: m) (auto split: list.splits)

lemma row_csv2dict_loop_last:
  assumes "row_csv2dict_loop m (pre @ [a, b, c] # post) = Inr m'"
    and "\<forall>r \<in> set post. take 2 r \<noteq> [a, b]"
  shows "m' (a, b) = Some c"
proof -
  from assms(1) obtain m1 where m1: "row_csv2dict_loop m pre = Inr m1"
    and rest: "row_csv2dict_loop (m1((a, b) \<mapsto> c)) post = Inr m'"
    by (auto simp: row_csv2dict_loop_append split: sum.splits)
  from row_csv2dict_loop_frame[OF rest assms(2)] show ?thesis by simp
qed

text \<open>
  Claim C7, as amended. On a file whose rows have exactly three fields each,
  \<open>row_csv2dict\<close> returns a table in which the key pair \<open>(a, b)\<close> maps to \<open>c\<close> for
  every row \<open>(a, b, c)\<close> that no later row with the same \<open>a\<close> and \<open>b\<close> follows.
\<close>

theorem row_csv2dict_last_row:
  assumes "fs p = Some (File rows)" and "\<forall>row \<in> set rows. length row = 3"
  shows "\<exists>m. row_csv2dict fs p = Inr m \<and>
           (\<forall>pre a b c post.
              rows = pre @ [a, b, c] # post \<and> (\<forall>r \<in> set post. take 2 r \<noteq> [a, b])
              \<longrightarrow> m (a, b) = Some c)"
proof -
  from row_csv2dict_loop_returns[OF assms(2)] obtain m where m: "row_csv2dict_loop Map.empty rows = Inr m"
    by blast
  have "row_csv2dict fs p = Inr m"
    using assms(1) m by (simp add: row_csv2dict_def open_read_def)
  moreover have "\<forall>pre a b c post.
      rows = pre @ [a, b, c] # post \<and> (\<forall>r \<in> set post. take 2 r \<noteq> [a, b])
      \<longrightarrow> m (a, b) = Some c"
    using m row_csv2dict_loop_last by blast
  ultimately show ?thesis by blast
qed

theorem row_csv2dict_last_row_witness:
  "map_sum id (\<lambda>m. (m (''a'', ''b''), m (''c'', ''d''))) (row_csv2dict ex_csv_fs [''table.csv'']) =
     Inr (Some ''3'', Some ''2'')"
proof -
  let ?rows = "[[''a'', ''b'', ''1''], [''c'', ''d'', ''2''], [''a'', ''b'', ''3'']]"
  have "ex_csv_fs [''table.csv''] = Some (File ?rows)" by (simp add: ex_csv_fs_def)
  moreover have "\<forall>row \<in> set ?rows. length row = 3" by simp
  ultimately obtain m where m: "row_csv2dict ex_csv_fs [''table.csv''] = Inr m"
    and last: "\<And>pre a b c post.
       ?rows = pre @ [a, b, c] # post \<Longrightarrow> (\<forall>r \<in> set post. take 2 r \<noteq> [a, b]) \<Longrightarrow> m (a, b) = Some c"
    using row_csv2dict_last_row[of ex_csv_fs "[''table.csv'']" ?rows] by blast
  have "m (''a'', ''b'') = Some ''3''"
    by (rule last[of "[[''a'', ''b'', ''1''], [''c'', ''d'', ''2'']]" _ _ _ "[]"]) simp_all
  moreover have "m (''c'', ''d'') = Some ''2''"
    by (rule last[of "[[''a'', ''b'', ''1'']]" _ _ _ "[[''a'', ''b'', ''3'']]"]) simp_all
  ultimately show ?thesis using m by simp
qed

text \<open>
  The claim as first stated speaks of every row. Where two rows share their first two
  fields the later one wins, and the value of the earlier row is not in the table.
\<close>

theorem row_csv2dict_counterexample:
  "ex_csv_fs [''table.csv''] =
     Some (File [[''a'', ''b'', ''1''], [''c'', ''d'', ''2''], [''a'', ''b'', ''3'']]) \<and>
   map_sum id (\<lambda>m. m (''a'', ''b'')) (row_csv2dict ex_csv_fs [''table.csv'']) = Inr (Some ''3'')"
  by (simp add: row_csv2dict_def open_read_def ex_csv_fs_def)

section \<open>Initialising the logger\<close>

lemma set_logger_configured:
  "handlers (root s) \<noteq> [] \<Longrightarrow> set_logger p s = (Inr (), s\<lparr>root := (root s)\<lparr>level := INFO\<rparr>\<rparr>)"
  by (simp add: set_logger_def setLevel_def prog_defs)

lemma set_logger_fresh:
  assumes "handlers (root s) = []" and "log_fs s (dirname p) = Some Dir" and "log_fs s p \<noteq> Some Dir"
  shows "set_logger p s =
    (Inr (),
     \<lparr>log_fs = (case log_fs s p of None \<Rightarrow> (log_fs s)(p \<mapsto> File []) | Some _ \<Rightarrow> log_fs s),
      root = \<lparr>level = INFO,
              handlers = [FileHandler p (Some ''%(asctime)s:%(levelname)s: %(message)s''),
                          StreamHandler (Some ''%(message)s'')]\<rparr>\<rparr>)"
  using assms
  by (cases s; cases "root s")
     (auto simp: set_logger_def setLevel_def addHandler_def new_FileHandler_def prog_defs
      open_append_def parent_error_def
      split: prod.splits sum.splits option.splits node.splits)

lemma set_logger_second:
  assumes "set_logger p1 s = (Inr (), s1)"
  shows "set_logger p2 s1 = (Inr (), s1)"
proof (cases "handlers (root s) = []")
  case False
  with assms have s1: "s1 = s\<lparr>root := (root s)\<lparr>level := INFO\<rparr>\<rparr>"
    by (simp add: set_logger_configured)
  then have "handlers (root s1) \<noteq> []" using False by simp
  then show ?thesis by (simp add: set_logger_configured s1)
next
  case True
  with assms have "handlers (root s1) \<noteq> []" "level (root s1) = INFO"
    by (auto simp: set_logger_def setLevel_def addHandler_def new_FileHandler_def prog_defs
        split: prod.splits sum.splits)
  then show ?thesis by (simp add: set_logger_configured)
qed

text \<open>
  Claim C8, as amended. After any first call of \<open>set_logger\<close> that returned, a second
  call, with any path, returns and leaves the logging state exactly as it was: it adds
  no handler, so no line is logged twice. When the root logger starts without handlers
  and the first log file can be opened, the first call returns and what the two calls
  leave is exactly one file handler, on the first path, and one console handler.
\<close>

theorem set_logger_twice:
  "(set_logger p1 s = (Inr (), s1) \<longrightarrow> set_logger p2 s1 = (Inr (), s1)) \<and>
   (handlers (root s) = [] \<and> log_fs s (dirname p1) = Some Dir \<and> log_fs s p1 \<noteq> Some Dir \<longrightarrow>
      (\<exists>s1. set_logger p1 s = (Inr (), s1) \<and>
         handlers (root s1) =
           [FileHandler p1 (Some ''%(asctime)s:%(levelname)s: %(message)s''),
            StreamHandler (Some ''%(message)s'')] \<and>
         length (filter is_file_handler (handlers (root s1))) = 1 \<and>
         length (filter is_console_handler (handlers (root s1))) = 1 \<and>
         set_logger p2 s1 = (Inr (), s1)))"
proof (intro conjI impI)
  assume "set_logger p1 s = (Inr (), s1)"
  then show "set_logger p2 s1 = (Inr (), s1)" by (rule set_logger_second)
next
  assume a: "handlers (root s) = [] \<and> log_fs s (dirname p1) = Some Dir \<and> log_fs s p1 \<noteq> Some Dir"
  then have f: "handlers (root s) = []" "log_fs s (dirname p1) = Some Dir" "log_fs s p1 \<noteq> Some Dir"
    by simp_all
  show "\<exists>s1. set_logger p1 s = (Inr (), s1) \<and>
         handlers (root s1) =
           [FileHandler p1 (Some ''%(asctime)s:%(levelname)s: %(message)s''),
            StreamHandler (Some ''%(message)s'')] \<and>
         length (filter is_file_handler (handlers (root s1))) = 1 \<and>
         length (filter is_console_handler (handlers (root s1))) = 1 \<and>
         set_logger p2 s1 = (Inr (), s1)"
    unfolding set_logger_fresh[OF f]
    by (simp add: set_logger_configured)
qed

theorem set_logger_twice_witness:
  "fst (set_logger [''train.log''] ex_logging) = Inr () \<and>
   handlers (root (snd (set_logger [''train.log''] ex_logging))) =
     [FileHandler [''train.log''] (Some ''%(asctime)s:%(levelname)s: %(message)s''),
      StreamHandler (Some ''%(message)s'')] \<and>
   set_logger [''other'', ''train.log''] (snd (set_logger [''train.log''] ex_logging)) =
     (Inr (), snd (set_logger [''train.log''] ex_logging))"
proof -
  let ?s1 = "snd (set_logger [''train.log''] ex_logging)"
  have pre: "handlers (root ex_logging) = [] \<and>
    log_fs ex_logging (dirname [''train.log'']) = Some Dir \<and>
    log_fs ex_logging [''train.log''] \<noteq> Some Dir"
    by (simp add: ex_logging_def ex_root_def dirname_def)
  note t = set_logger_twice[of "[''train.log'']" ex_logging ?s1 "[''other'', ''train.log'']"]
  from t pre obtain s1 where s1: "set_logger [''train.log''] ex_logging = (Inr (), s1)"
    and h: "handlers (root s1) =
      [FileHandler [''train.log''] (Some ''%(asctime)s:%(levelname)s: %(message)s''),
       StreamHandler (Some ''%(message)s'')]"
    by blast
  from s1 have eq: "?s1 = s1" by simp
  from t s1 eq have "set_logger [''other'', ''train.log''] ?s1 = (Inr (), ?s1)" by simp
  with s1 h show ?thesis by simp
qed

text \<open>
  The claim as first stated speaks of every logger and every path. A root logger that
  already has a handler keeps it and gets no file handler from either call; and a first
  path that cannot be opened makes the first call fail with no handler installed, so
  that it is the second call that adds the two handlers.
\<close>

theorem set_logger_twice_counterexample:
  "set_logger [''train.log''] ex_logging_configured =
     (Inr (), \<lparr>log_fs = ex_root, root = \<lparr>level = INFO, handlers = [StreamHandler None]\<rparr>\<rparr>) \<and>
   set_logger [''train.log''] \<lparr>log_fs = ex_root, root = \<lparr>level = INFO, handlers = [StreamHandler None]\<rparr>\<rparr> =
     (Inr (), \<lparr>log_fs = ex_root, root = \<lparr>level = INFO, handlers = [StreamHandler None]\<rparr>\<rparr>) \<and>
   filter is_file_handler [StreamHandler None] = [] \<and>
   set_logger [''logs'', ''train.log''] ex_logging =
     (Inl FileNotFoundError, \<lparr>log_fs = ex_root, root = \<lparr>level = INFO, handlers = []\<rparr>\<rparr>) \<and>
   handlers (root (snd (set_logger [''train.log'']
       \<lparr>log_fs = ex_root, root = \<lparr>level = INFO, handlers = []\<rparr>\<rparr>))) =
     [FileHandler [''train.log''] (Some ''%(asctime)s:%(levelname)s: %(message)s''),
      StreamHandler (Some ''%(message)s'')]"
  by (simp add: set_logger_def setLevel_def addHandler_def new_FileHandler_def prog_defs
      open_append_def parent_error_def dirname_def ex_logging_configured_def ex_logging_def
      ex_root_def)

section \<open>Updating the hyperparameters\<close>

text \<open>
  Claim C10. \<open>Params.update\<close> merges: after a call on a JSON file, every attribute
  whose key is not in the file has the value it had before, and every key of the file
  has the value of the file. A new instance, which starts without attributes, holds
  exactly the content of the file.
\<close>

theorem Params_update_merges:
  assumes "fs p = Some (File params)"
  shows "\<exists>self'. Params_update fs p self = (Inr (), self') \<and>
           (\<forall>k. k \<notin> dom params \<longrightarrow> self' k = self k) \<and>
           (\<forall>k \<in> dom params. self' k = params k) \<and>
           Params_init fs p = (Inr (), params)"
  using assms
  by (auto simp: Params_init_def Params_update_def json_load_def open_read_def prog_defs map_add_def
      split: option.splits)

theorem Params_update_merges_witness:
  "fst (Params_update ex_json_fs [''params.json''] ex_params) = Inr () \<and>
   snd (Params_update ex_json_fs [''params.json''] ex_params) ''epochs'' = Some (JInt 5) \<and>
   snd (Params_update ex_json_fs [''params.json''] ex_params) ''learning_rate'' =
     Some (JFloat 0x3F50624DD2F1A9FC) \<and>
   snd (Params_update ex_json_fs [''params.json''] ex_params) ''batch_size'' = Some (JInt 64)"
proof -
  let ?params = "[''learning_rate'' \<mapsto> JFloat 0x3F50624DD2F1A9FC, ''batch_size'' \<mapsto> JInt 64]"
  have "ex_json_fs [''params.json''] = Some (File ?params)"
    by (simp add: ex_json_fs_def)
  from Params_update_merges[where fs=ex_json_fs and p="[''params.json'']" and self=ex_params, OF this]
  obtain self' where u: "Params_update ex_json_fs [''params.json''] ex_params = (Inr (), self')"
    and keep: "\<forall>k. k \<notin> dom ?params \<longrightarrow> self' k = ex_params k"
    and new: "\<forall>k \<in> dom ?params. self' k = ?params k"
    by blast
  from keep have "self' ''epochs'' = Some (JInt 5)"
    by (simp add: ex_params_def)
  moreover from new have "self' ''learning_rate'' = Some (JFloat 0x3F50624DD2F1A9FC)"
    "self' ''batch_size'' = Some (JInt 64)"
    by simp_all
  ultimately show ?thesis using u by simp
qed

end
